theory Spec2Isabelle
  imports Main "HOL-Library.Signed_Division"
begin

section \<open>JavaScript values\<close>

text \<open>
  The responses of the backend reach the client as parsed JSON, and the client branches on
  them by truthiness and by property access. A number is a JSON integer such as
  \<open>duration_seconds\<close>; fractions and the infinities are not values of this model, and
  NaN appears only as the result of arithmetic.
\<close>

datatype jsval =
    JUndefined
  | JNull
  | JBool bool
  | JNum int
  | JStr string
  | JArr "jsval list"
  | JObj "(string \<times> jsval) list"

datatype js_error = TypeError

text \<open>
  What evaluating an expression comes to: a value, an exception, or \<open>Beyond\<close> where
  the expression leaves what this model computes (a number outside the safe integers, a
  string read as a number in a form other than plain digits). \<open>Beyond\<close> says nothing
  about the code.
\<close>

datatype 'a result = Ok 'a | Throws js_error | Beyond

text \<open>\<open>if (v)\<close>, \<open>!v\<close>, \<open>a && b\<close>, \<open>c ? x : y\<close>: the truthiness of a value.\<close>

fun truthy :: "jsval \<Rightarrow> bool" where
  "truthy JUndefined = False"
| "truthy JNull = False"
| "truthy (JBool b) = b"
| "truthy (JNum n) = (n \<noteq> 0)"
| "truthy (JStr s) = (s \<noteq> [])"
| "truthy (JArr xs) = True"
| "truthy (JObj kvs) = True"

text \<open>
  \<open>v.k\<close> for the property names the source reads (\<open>success\<close>, \<open>templates\<close>,
  \<open>template_name\<close>, \<open>error\<close>, \<open>can_call\<close>, ...), none of which is a
  built-in property of an array, a string, a number or a boolean: there the read gives
  \<open>undefined\<close>. On \<open>undefined\<close> and \<open>null\<close> the read raises.
\<close>

fun js_prop :: "jsval \<Rightarrow> string \<Rightarrow> js_error + jsval" where
  "js_prop JUndefined k = Inl TypeError"
| "js_prop JNull k = Inl TypeError"
| "js_prop (JObj kvs) k = Inr (case map_of kvs k of None \<Rightarrow> JUndefined | Some v \<Rightarrow> v)"
| "js_prop v k = Inr JUndefined"

text \<open>
  The read behind a truthiness guard (\<open>r.message && r.message.success\<close>, or after
  \<open>if (!r.message) return\<close>), where the receiver is neither \<open>undefined\<close> nor
  \<open>null\<close>.
\<close>

definition js_get :: "jsval \<Rightarrow> string \<Rightarrow> jsval" where
  "js_get v k = (case js_prop v k of Inl e \<Rightarrow> JUndefined | Inr x \<Rightarrow> x)"

definition is_array :: "jsval \<Rightarrow> bool" where
  "is_array v = (case v of JArr xs \<Rightarrow> True | _ \<Rightarrow> False)"

subsection \<open>Numbers and strings\<close>

definition digit_char :: "nat \<Rightarrow> char" where
  "digit_char d = ''0123456789'' ! d"

fun string_of_nat :: "nat \<Rightarrow> string" where
  "string_of_nat n =
     (if n < 10 then [digit_char n]
      else string_of_nat (n div 10) @ [digit_char (n mod 10)])"

declare string_of_nat.simps [simp del]

definition string_of_int :: "int \<Rightarrow> string" where
  "string_of_int i = (if i < 0 then CHR ''-'' # string_of_nat (nat (- i)) else string_of_nat (nat i))"

text \<open>
  The integers that a JavaScript number holds exactly, with their neighbours:
  \<open>-(2^53 - 1) .. 2^53 - 1\<close>. On them \<open>String(n)\<close> is the decimal numeral,
  \<open>n % 60\<close> is exact, and the rounding of \<open>n / 60\<close> never reaches the next integer,
  so \<open>Math.floor(n / 60)\<close> is the integer quotient rounded down. A number enters
  arithmetic or printing only after its range is checked (\<open>number_to_string\<close>,
  \<open>js_to_number\<close>, \<open>timer_tick\<close>); outside the range the result is \<open>Beyond\<close>.
\<close>

definition safe_integer :: "int \<Rightarrow> bool" where
  "safe_integer n = (- 9007199254740991 \<le> n \<and> n \<le> 9007199254740991)"

definition number_to_string :: "int \<Rightarrow> string result" where
  "number_to_string n = (if safe_integer n then Ok (string_of_int n) else Beyond)"

text \<open>
  \<open>Math.floor(a / b)\<close> and \<open>a % b\<close> on safe integers: the remainder takes the sign
  of \<open>a\<close>.
\<close>

definition js_floor_div :: "int \<Rightarrow> int \<Rightarrow> int" where
  "js_floor_div a b = a div b"

definition js_rem :: "int \<Rightarrow> int \<Rightarrow> int" where
  "js_rem a b = a smod b"

text \<open>\<open>s.padStart(n, '0')\<close>.\<close>

definition pad_start :: "nat \<Rightarrow> string \<Rightarrow> string" where
  "pad_start n s = replicate (n - length s) CHR ''0'' @ s"

fun join_with :: "string \<Rightarrow> string list \<Rightarrow> string" where
  "join_with sep [] = []"
| "join_with sep [x] = x"
| "join_with sep (x # y # ys) = x @ sep @ join_with sep (y # ys)"

text \<open>The results of a list of evaluations done in order: the first that fails decides.\<close>

fun sequence :: "'a result list \<Rightarrow> 'a list result" where
  "sequence [] = Ok []"
| "sequence (r # rs) =
     (case r of
        Ok x \<Rightarrow> (case sequence rs of Ok xs \<Rightarrow> Ok (x # xs) | Throws e \<Rightarrow> Throws e | Beyond \<Rightarrow> Beyond)
      | Throws e \<Rightarrow> Throws e
      | Beyond \<Rightarrow> Beyond)"

definition map_result :: "('a \<Rightarrow> 'b) \<Rightarrow> 'a result \<Rightarrow> 'b result" where
  "map_result g r = (case r of Ok x \<Rightarrow> Ok (g x) | Throws e \<Rightarrow> Throws e | Beyond \<Rightarrow> Beyond)"

text \<open>
  \<open>String(v)\<close>, as string concatenation with a string, \<open>replace\<close> and \<open>join\<close>
  apply it. An array prints as its elements joined by commas, with \<open>undefined\<close> and
  \<open>null\<close> elements printing as nothing. An object parsed from JSON has no callable
  property of its own: with an own \<open>toString\<close> the conversion finds nothing to call and
  raises, without one it prints through the inherited method.
\<close>

fun js_to_string :: "jsval \<Rightarrow> string result" where
  "js_to_string JUndefined = Ok ''undefined''"
| "js_to_string JNull = Ok ''null''"
| "js_to_string (JBool b) = Ok (if b then ''true'' else ''false'')"
| "js_to_string (JNum n) = number_to_string n"
| "js_to_string (JStr s) = Ok s"
| "js_to_string (JArr xs) =
     map_result (join_with '','')
       (sequence (map (\<lambda>x. if x = JUndefined \<or> x = JNull then Ok [] else js_to_string x) xs))"
| "js_to_string (JObj kvs) =
     (case map_of kvs ''toString'' of
        None \<Rightarrow> Ok ''[object Object]''
      | Some v \<Rightarrow> Throws TypeError)"

definition js_join_elem :: "jsval \<Rightarrow> string result" where
  "js_join_elem x = (if x = JUndefined \<or> x = JNull then Ok [] else js_to_string x)"

text \<open>\<open>xs.join(sep)\<close> on an array.\<close>

definition js_join :: "string \<Rightarrow> jsval list \<Rightarrow> string result" where
  "js_join sep xs = map_result (join_with sep) (sequence (map js_join_elem xs))"

section \<open>Template lists\<close>

text \<open>
  \<open>create_message_dialog\<close>, the callback of \<open>get_templates\<close>: the value of the local
  \<open>templates\<close> after the two-format check on \<open>r.message\<close>.
\<close>

definition normalize_templates :: "jsval \<Rightarrow> jsval" where
  "normalize_templates m =
     (if truthy m then
        (if is_array m then m
         else if truthy (js_get m ''success'') \<and> truthy (js_get m ''templates'')
              then js_get m ''templates''
              else JArr [])
      else JArr [])"

text \<open>
  The sync handler's refresh callback: the value of \<open>newTemplates\<close> after
  \<open>if (r2.message && r2.message.templates)\<close>.
\<close>

definition refresh_templates :: "jsval \<Rightarrow> jsval" where
  "refresh_templates m =
     (if truthy m \<and> truthy (js_get m ''templates'') then js_get m ''templates'' else JArr [])"

text \<open>\<open>t => t.template_name\<close> over the elements, stopping at the first that raises.\<close>

fun template_names :: "jsval list \<Rightarrow> js_error + jsval list" where
  "template_names [] = Inr []"
| "template_names (t # ts) =
     (case js_prop t ''template_name'' of
        Inl e \<Rightarrow> Inl e
      | Inr n \<Rightarrow> (case template_names ts of Inl e \<Rightarrow> Inl e | Inr ns \<Rightarrow> Inr (n # ns)))"

text \<open>
  \<open>templates.map(t => t.template_name).join('\n')\<close>: only an array has \<open>map\<close>; on any
  other value the call raises.
\<close>

definition template_options :: "jsval \<Rightarrow> string result" where
  "template_options ts =
     (case ts of
        JArr xs \<Rightarrow> (case template_names xs of
                      Inl e \<Rightarrow> Throws e
                    | Inr ns \<Rightarrow> js_join [CHR 0x0A] ns)
      | _ \<Rightarrow> Throws TypeError)"

section \<open>The host: form, remote calls, prompts, timers, dialogs\<close>

text \<open>
  The source is event-driven: every function returns at once, and what it leaves behind is
  a set of registered callbacks (of \<open>frappe.call\<close>, \<open>frappe.confirm\<close>,
  \<open>setTimeout\<close>, \<open>setInterval\<close>, a dialog's primary action, a click handler).
  A callback is a value naming the closure and what it captured; the host state holds the
  registered ones, and the steps of the environment (a response arrives, the user answers a
  prompt, a timer fires, a button is clicked) run them.
\<close>

record frm =
  doc_name :: string

datatype callback =
    CheckPermissionCb frm
  | RequestPermissionCb frm
  | InitiateCb frm
  | EndCb frm nat
  | CheckWindowCb frm
  | GetTemplatesCb frm jsval
  | SyncTemplatesCb nat
  | RefreshTemplatesCb nat
  | SendCb frm nat

datatype prompt_cb = RequestPermissionYes frm

datatype timer_cb = RingingCb nat | ConnectedCb nat | TickCb nat

text \<open>What the user sees and what goes to the backend, in the order the host was called.\<close>

datatype event =
    Call string "(string \<times> jsval) list" "string option"
  | Confirm string
  | Msgprint "string option" jsval "string option"
  | Alert jsval string
  | ReloadDoc

record request =
  rq_method :: string
  rq_args :: "(string \<times> jsval) list"
  rq_callback :: callback

record timer =
  tm_handle :: nat
  tm_repeat :: bool
  tm_delay :: nat
  tm_callback :: timer_cb

text \<open>
  The call widget of \<open>show_call_widget\<close>: the badge text, the timer block and its
  display, the notes field, and what the primary action captured (\<open>frm\<close>,
  \<open>call_data.call_log_id\<close>). The markup and the CSS classes are left out.
\<close>

record call_dialog =
  cd_open :: bool
  cd_frm :: frm
  cd_call_log_id :: jsval
  cd_status_badge :: string
  cd_timer_shown :: bool
  cd_timer_display :: string
  cd_call_notes :: jsval

text \<open>
  The composer of \<open>create_message_dialog\<close>: the options and the value of the two
  selects, the text field, the hidden flags that \<open>onchange\<close> sets, the banner shown
  outside the conversation window, and the sync button with its icon.
\<close>

record msg_dialog =
  md_open :: bool
  md_frm :: frm
  md_info_banner :: bool
  md_message_type_options :: string
  md_message_type :: jsval
  md_template_name_options :: string
  md_template_name :: jsval
  md_template_name_hidden :: bool
  md_text_message :: jsval
  md_text_message_hidden :: bool
  md_sync_disabled :: bool
  md_sync_spin :: bool

text \<open>
  The state: the host's side (events so far, requests in flight, open prompts, errors that
  escaped a callback, the timer table, the dialogs by identity) and the two globals of the
  source, \<open>timerInterval\<close> (\<open>None\<close> is \<open>undefined\<close>) and \<open>callSeconds\<close>.
  \<open>beyond\<close> is set once a callback has evaluated something this model does not
  compute; from then on the state says nothing about the code.
\<close>

record world =
  events :: "event list"
  requests :: "request list"
  prompts :: "prompt_cb list"
  uncaught :: "js_error list"
  beyond :: bool
  timers :: "timer list"
  next_timer :: nat
  call_dialogs :: "nat \<Rightarrow> call_dialog"
  next_call_dialog :: nat
  msg_dialogs :: "nat \<Rightarrow> msg_dialog"
  next_msg_dialog :: nat
  timerInterval :: "nat option"
  callSeconds :: int

subsection \<open>Host operations\<close>

text \<open>\<open>frappe.call({method, args, freeze_message, callback})\<close>: no \<open>error\<close> or \<open>always\<close> handler is ever passed.\<close>

definition frappe_call ::
  "string \<Rightarrow> (string \<times> jsval) list \<Rightarrow> string option \<Rightarrow> callback \<Rightarrow> world \<Rightarrow> world" where
  "frappe_call m a fr cb w =
     w\<lparr>events := events w @ [Call m a fr],
       requests := requests w @ [\<lparr>rq_method = m, rq_args = a, rq_callback = cb\<rparr>]\<rparr>"

definition frappe_confirm :: "string \<Rightarrow> prompt_cb \<Rightarrow> world \<Rightarrow> world" where
  "frappe_confirm msg ifyes w =
     w\<lparr>events := events w @ [Confirm msg], prompts := prompts w @ [ifyes]\<rparr>"

definition frappe_msgprint :: "string option \<Rightarrow> jsval \<Rightarrow> string option \<Rightarrow> world \<Rightarrow> world" where
  "frappe_msgprint title msg ind w = w\<lparr>events := events w @ [Msgprint title msg ind]\<rparr>"

definition frappe_show_alert :: "jsval \<Rightarrow> string \<Rightarrow> world \<Rightarrow> world" where
  "frappe_show_alert msg ind w = w\<lparr>events := events w @ [Alert msg ind]\<rparr>"

definition reload_doc :: "world \<Rightarrow> world" where
  "reload_doc w = w\<lparr>events := events w @ [ReloadDoc]\<rparr>"

text \<open>\<open>setTimeout\<close> and \<open>setInterval\<close> draw their handles from one counter.\<close>

definition add_timer :: "bool \<Rightarrow> timer_cb \<Rightarrow> nat \<Rightarrow> world \<Rightarrow> nat \<times> world" where
  "add_timer rep cb ms w =
     (next_timer w,
      w\<lparr>timers := timers w @ [\<lparr>tm_handle = next_timer w, tm_repeat = rep, tm_delay = ms, tm_callback = cb\<rparr>],
        next_timer := Suc (next_timer w)\<rparr>)"

definition setTimeout :: "timer_cb \<Rightarrow> nat \<Rightarrow> world \<Rightarrow> world" where
  "setTimeout cb ms w = snd (add_timer False cb ms w)"

definition setInterval :: "timer_cb \<Rightarrow> nat \<Rightarrow> world \<Rightarrow> nat \<times> world" where
  "setInterval cb ms w = add_timer True cb ms w"

text \<open>\<open>clearInterval(h)\<close>: with \<open>undefined\<close>, or a handle that is not active, nothing happens.\<close>

definition clearInterval :: "nat option \<Rightarrow> world \<Rightarrow> world" where
  "clearInterval h w =
     (case h of
        None \<Rightarrow> w
      | Some n \<Rightarrow> w\<lparr>timers := filter (\<lambda>t. tm_handle t \<noteq> n) (timers w)\<rparr>)"

definition upd_call_dialog :: "nat \<Rightarrow> (call_dialog \<Rightarrow> call_dialog) \<Rightarrow> world \<Rightarrow> world" where
  "upd_call_dialog d f w = w\<lparr>call_dialogs := (call_dialogs w)(d := f (call_dialogs w d))\<rparr>"

definition upd_msg_dialog :: "nat \<Rightarrow> (msg_dialog \<Rightarrow> msg_dialog) \<Rightarrow> world \<Rightarrow> world" where
  "upd_msg_dialog d f w = w\<lparr>msg_dialogs := (msg_dialogs w)(d := f (msg_dialogs w d))\<rparr>"

text \<open>
  A callback goes on with the value of an expression; an exception ends it there, with
  what it did before left in place.
\<close>

definition on_result :: "'a result \<Rightarrow> ('a \<Rightarrow> world \<Rightarrow> world) \<Rightarrow> world \<Rightarrow> world" where
  "on_result r k w =
     (case r of
        Ok x \<Rightarrow> k x w
      | Throws e \<Rightarrow> w\<lparr>uncaught := uncaught w @ [e]\<rparr>
      | Beyond \<Rightarrow> w\<lparr>beyond := True\<rparr>)"

text \<open>
  The translation helper \<open>__\<close> is taken as the identity on its text. With arguments it
  fills the placeholders, leaving \<open>{i}\<close> in place where the argument is \<open>undefined\<close>.
\<close>

definition fmt_arg :: "nat \<Rightarrow> jsval \<Rightarrow> string result" where
  "fmt_arg i v = (if v = JUndefined then Ok (''{'' @ string_of_nat i @ ''}'') else js_to_string v)"

text \<open>The value of a decimal digit, and of a string of them read from the left.\<close>

definition digit_value :: "char \<Rightarrow> nat option" where
  "digit_value c =
     (let k = (of_char c :: nat) in if 48 \<le> k \<and> k \<le> 57 then Some (k - 48) else None)"

fun parse_digits :: "nat \<Rightarrow> string \<Rightarrow> nat option" where
  "parse_digits acc [] = Some acc"
| "parse_digits acc (c # cs) =
     (case digit_value c of None \<Rightarrow> None | Some d \<Rightarrow> parse_digits (10 * acc + d) cs)"

text \<open>
  A value as a number for arithmetic; \<open>None\<close> is NaN. A string of decimal digits is
  its number and the empty string is 0. The other strings (signs, blanks, fractions,
  exponents, other bases, and the ones that are no number), arrays and objects are not
  read here.
\<close>

fun js_to_number :: "jsval \<Rightarrow> int option result" where
  "js_to_number (JNum n) = (if safe_integer n then Ok (Some n) else Beyond)"
| "js_to_number JUndefined = Ok None"
| "js_to_number JNull = Ok (Some 0)"
| "js_to_number (JBool b) = Ok (Some (if b then 1 else 0))"
| "js_to_number (JStr s) =
     (case parse_digits 0 s of
        None \<Rightarrow> Beyond
      | Some n \<Rightarrow> (if safe_integer (int n) then Ok (Some (int n)) else Beyond))"
| "js_to_number (JArr xs) = Beyond"
| "js_to_number (JObj kvs) = Beyond"

definition num_string :: "int option \<Rightarrow> string" where
  "num_string n = (case n of None \<Rightarrow> ''NaN'' | Some i \<Rightarrow> string_of_int i)"

section \<open>Calls\<close>

subsection \<open>Requesting permission\<close>

definition request_permission_cb :: "frm \<Rightarrow> jsval \<Rightarrow> world \<Rightarrow> world" where
  "request_permission_cb f m w =
     (if truthy m \<and> truthy (js_get m ''success'') then
        reload_doc
          (frappe_show_alert
             (JStr ''Permission request sent. You will be notified when approved.'') ''green'' w)
      else
        frappe_msgprint (Some ''Error'')
          (if truthy m then js_get m ''error'' else JStr ''Failed to send request'')
          (Some ''red'') w)"

definition request_call_permission :: "frm \<Rightarrow> world \<Rightarrow> world" where
  "request_call_permission f w =
     frappe_call ''walue_whatsapp_client.api.calls.request_permission''
       [(''lead_id'', JStr (doc_name f))]
       (Some ''Sending permission request...'')
       (RequestPermissionCb f) w"

subsection \<open>The call widget and its timer\<close>

text \<open>The body of the interval: \<open>callSeconds++\<close>, then the display as \<open>MM:SS\<close>.\<close>

definition timer_tick :: "nat \<Rightarrow> world \<Rightarrow> world" where
  "timer_tick d w =
     (if safe_integer (callSeconds w) \<and> safe_integer (callSeconds w + 1) then
        (let s = callSeconds w + 1;
             mins = pad_start 2 (string_of_int (js_floor_div s 60));
             secs = pad_start 2 (string_of_int (js_rem s 60))
         in upd_call_dialog d (\<lambda>c. c\<lparr>cd_timer_display := mins @ '':'' @ secs\<rparr>)
              (w\<lparr>callSeconds := s\<rparr>))
      else w\<lparr>beyond := True\<rparr>)"

definition startTimer :: "nat \<Rightarrow> world \<Rightarrow> world" where
  "startTimer d w =
     (let (h, w') = setInterval (TickCb d) 1000 (w\<lparr>callSeconds := 0\<rparr>)
      in w'\<lparr>timerInterval := Some h\<rparr>)"

definition ringing_cb :: "nat \<Rightarrow> world \<Rightarrow> world" where
  "ringing_cb d w = upd_call_dialog d (\<lambda>c. c\<lparr>cd_status_badge := ''Ringing...''\<rparr>) w"

definition connected_cb :: "nat \<Rightarrow> world \<Rightarrow> world" where
  "connected_cb d w =
     startTimer d
       (upd_call_dialog d (\<lambda>c. c\<lparr>cd_status_badge := ''Connected'', cd_timer_shown := True\<rparr>) w)"

definition initialize_webrtc :: "jsval \<Rightarrow> nat \<Rightarrow> world \<Rightarrow> world" where
  "initialize_webrtc call_data d w =
     setTimeout (ConnectedCb d) 3000 (setTimeout (RingingCb d) 1000 w)"

text \<open>
  The dialog is created with two fields and a primary action and no other option: nothing
  of the source runs when the host hides it.
\<close>

definition show_call_widget :: "frm \<Rightarrow> jsval \<Rightarrow> world \<Rightarrow> world" where
  "show_call_widget f call_data w =
     (let d = next_call_dialog w;
          w' = w\<lparr>call_dialogs := (call_dialogs w)
                  (d := \<lparr>cd_open = True, cd_frm = f,
                         cd_call_log_id = js_get call_data ''call_log_id'',
                         cd_status_badge = ''Connecting...'',
                         cd_timer_shown = False,
                         cd_timer_display = ''00:00'',
                         cd_call_notes = JUndefined\<rparr>),
                 next_call_dialog := Suc d\<rparr>
      in initialize_webrtc call_data d w')"

subsection \<open>Starting a call\<close>

definition initiate_cb :: "frm \<Rightarrow> jsval \<Rightarrow> world \<Rightarrow> world" where
  "initiate_cb f m w =
     (if truthy m \<and> truthy (js_get m ''success'') then show_call_widget f m w
      else
        frappe_msgprint (Some ''Call Failed'')
          (if truthy m then js_get m ''error'' else JStr ''Could not initiate call'')
          (Some ''red'') w)"

definition start_call :: "frm \<Rightarrow> world \<Rightarrow> world" where
  "start_call f w =
     frappe_call ''walue_whatsapp_client.api.calls.initiate''
       [(''lead_id'', JStr (doc_name f))]
       (Some ''Connecting call...'')
       (InitiateCb f) w"

definition check_permission_cb :: "frm \<Rightarrow> jsval \<Rightarrow> world \<Rightarrow> world" where
  "check_permission_cb f m w =
     (if \<not> truthy m then w
      else if truthy (js_get m ''can_call'') then start_call f w
      else if truthy (js_get m ''can_request'') then
        on_result (js_to_string (js_get m ''message''))
          (\<lambda>msg. frappe_confirm
                    (msg @ ''<br><br>Would you like to send a permission request?'')
                    (RequestPermissionYes f)) w
      else
        frappe_msgprint (Some ''Cannot Call'') (js_get m ''message'') (Some ''orange'') w)"

definition initiate_whatsapp_call :: "frm \<Rightarrow> world \<Rightarrow> world" where
  "initiate_whatsapp_call f w =
     frappe_call ''walue_whatsapp_client.api.calls.check_permission''
       [(''lead_id'', JStr (doc_name f))] None (CheckPermissionCb f) w"

subsection \<open>Ending a call\<close>

definition end_cb :: "frm \<Rightarrow> nat \<Rightarrow> jsval \<Rightarrow> world \<Rightarrow> world" where
  "end_cb f d m w =
     (let w1 = upd_call_dialog d (\<lambda>c. c\<lparr>cd_open := False\<rparr>) w
      in if truthy m \<and> truthy (js_get m ''success'') then
           on_result (js_to_number (js_get m ''duration_seconds''))
             (\<lambda>duration w2.
                let mins = map_option (\<lambda>n. js_floor_div n 60) duration;
                    secs = map_option (\<lambda>n. js_rem n 60) duration
                in reload_doc
                     (frappe_show_alert
                        (JStr (''Call ended. Duration: '' @ num_string mins @ ''m '' @
                               num_string secs @ ''s''))
                        ''green'' w2))
             w1
         else w1)"

definition end_call :: "frm \<Rightarrow> jsval \<Rightarrow> nat \<Rightarrow> world \<Rightarrow> world" where
  "end_call f call_log_id d w =
     (let w1 = clearInterval (timerInterval w) w;
          notes = cd_call_notes (call_dialogs w1 d)
      in frappe_call ''walue_whatsapp_client.api.calls.end''
           [(''call_log_id'', call_log_id), (''notes'', notes)] None (EndCb f d) w1)"

section \<open>Messages\<close>

definition handle_send_response :: "frm \<Rightarrow> jsval \<Rightarrow> world \<Rightarrow> world" where
  "handle_send_response f m w =
     (if truthy m \<and> truthy (js_get m ''success'') then
        reload_doc (frappe_show_alert (JStr ''Message sent successfully'') ''green'' w)
      else
        frappe_msgprint (Some ''Failed'')
          (if truthy m then js_get m ''error'' else JStr ''Could not send message'')
          (Some ''red'') w)"

definition send_cb :: "frm \<Rightarrow> nat \<Rightarrow> jsval \<Rightarrow> world \<Rightarrow> world" where
  "send_cb f d m w = handle_send_response f m (upd_msg_dialog d (\<lambda>c. c\<lparr>md_open := False\<rparr>) w)"

text \<open>
  \<open>send_message\<close> reads the dialog's fields and nothing else: the window status is not
  in its scope.
\<close>

definition send_message :: "frm \<Rightarrow> nat \<Rightarrow> world \<Rightarrow> world" where
  "send_message f d w =
     (let message_type = md_message_type (msg_dialogs w d) in
      if message_type = JStr ''Template'' then
        (let template_name = md_template_name (msg_dialogs w d) in
         if \<not> truthy template_name then
           frappe_msgprint None (JStr ''Please select a template'') None w
         else
           frappe_call ''walue_whatsapp_client.api.messages.send_template''
             [(''lead_id'', JStr (doc_name f)), (''template_name'', template_name)]
             (Some ''Sending message...'') (SendCb f d) w)
      else
        (let text = md_text_message (msg_dialogs w d) in
         if \<not> truthy text then
           frappe_msgprint None (JStr ''Please enter a message'') None w
         else
           frappe_call ''walue_whatsapp_client.api.messages.send_text''
             [(''lead_id'', JStr (doc_name f)), (''text'', text)]
             (Some ''Sending message...'') (SendCb f d) w))"

subsection \<open>Template sync\<close>

definition refresh_templates_cb :: "nat \<Rightarrow> jsval \<Rightarrow> world \<Rightarrow> world" where
  "refresh_templates_cb d m w =
     on_result (template_options (refresh_templates m))
       (\<lambda>options. upd_msg_dialog d (\<lambda>c. c\<lparr>md_template_name_options := options\<rparr>)) w"

definition sync_templates_cb :: "nat \<Rightarrow> jsval \<Rightarrow> world \<Rightarrow> world" where
  "sync_templates_cb d m w =
     (let w1 = upd_msg_dialog d (\<lambda>c. c\<lparr>md_sync_spin := False, md_sync_disabled := False\<rparr>) w
      in if truthy m \<and> truthy (js_get m ''success'') then
           on_result (fmt_arg 0 (js_get m ''synced_count''))
             (\<lambda>n w2.
                frappe_call ''walue_whatsapp_client.api.messages.get_templates'' [] None
                  (RefreshTemplatesCb d)
                  (frappe_show_alert (JStr (''Synced '' @ n @ '' templates'')) ''green'' w2))
             w1
         else
           frappe_show_alert
             (if truthy m then js_get m ''error'' else JStr ''Sync failed'') ''red'' w1)"

text \<open>The click handler of the sync button.\<close>

definition sync_click :: "nat \<Rightarrow> world \<Rightarrow> world" where
  "sync_click d w =
     frappe_call ''walue_whatsapp_client.api.messages.sync_templates'' [] None
       (SyncTemplatesCb d)
       (upd_msg_dialog d (\<lambda>c. c\<lparr>md_sync_spin := True, md_sync_disabled := True\<rparr>) w)"

subsection \<open>The composer\<close>

text \<open>The \<open>onchange\<close> of the message type select.\<close>

definition message_type_onchange :: "nat \<Rightarrow> world \<Rightarrow> world" where
  "message_type_onchange d w =
     (let type = md_message_type (msg_dialogs w d)
      in upd_msg_dialog d
           (\<lambda>c. c\<lparr>md_template_name_hidden := (type \<noteq> JStr ''Template''),
                   md_text_message_hidden := (type \<noteq> JStr ''Text Message'')\<rparr>) w)"

text \<open>
  The callback of \<open>get_templates\<close> in \<open>create_message_dialog\<close>. The options of the
  template select are computed while the field list is built, before the dialog exists: if
  that raises, no dialog is made.
\<close>

definition get_templates_cb :: "frm \<Rightarrow> jsval \<Rightarrow> jsval \<Rightarrow> world \<Rightarrow> world" where
  "get_templates_cb f window_status m w =
     (let templates = normalize_templates m;
          in_window = truthy (js_get window_status ''in_window'')
      in on_result (template_options templates)
           (\<lambda>options w.
              let d = next_msg_dialog w
              in w\<lparr>msg_dialogs := (msg_dialogs w)
                     (d := \<lparr>md_open = True, md_frm = f,
                            md_info_banner = (\<not> in_window),
                            md_message_type_options =
                              (if in_window then ''Template'' @ [CHR 0x0A] @ ''Text Message''
                               else ''Template''),
                            md_message_type = JStr ''Template'',
                            md_template_name_options = options,
                            md_template_name = JUndefined,
                            md_template_name_hidden = False,
                            md_text_message = JUndefined,
                            md_text_message_hidden = True,
                            md_sync_disabled = False,
                            md_sync_spin = False\<rparr>),
                    next_msg_dialog := Suc d\<rparr>)
           w)"

definition create_message_dialog :: "frm \<Rightarrow> jsval \<Rightarrow> world \<Rightarrow> world" where
  "create_message_dialog f window_status w =
     frappe_call ''walue_whatsapp_client.api.messages.get_templates'' [] None
       (GetTemplatesCb f window_status) w"

definition check_window_cb :: "frm \<Rightarrow> jsval \<Rightarrow> world \<Rightarrow> world" where
  "check_window_cb f m w = create_message_dialog f (if truthy m then m else JObj []) w"

definition show_message_composer :: "frm \<Rightarrow> world \<Rightarrow> world" where
  "show_message_composer f w =
     frappe_call ''walue_whatsapp_client.api.messages.check_conversation_window''
       [(''lead_id'', JStr (doc_name f))] None (CheckWindowCb f) w"

section \<open>The environment\<close>

fun run_callback :: "callback \<Rightarrow> jsval \<Rightarrow> world \<Rightarrow> world" where
  "run_callback (CheckPermissionCb f) m w = check_permission_cb f m w"
| "run_callback (RequestPermissionCb f) m w = request_permission_cb f m w"
| "run_callback (InitiateCb f) m w = initiate_cb f m w"
| "run_callback (EndCb f d) m w = end_cb f d m w"
| "run_callback (CheckWindowCb f) m w = check_window_cb f m w"
| "run_callback (GetTemplatesCb f ws) m w = get_templates_cb f ws m w"
| "run_callback (SyncTemplatesCb d) m w = sync_templates_cb d m w"
| "run_callback (RefreshTemplatesCb d) m w = refresh_templates_cb d m w"
| "run_callback (SendCb f d) m w = send_cb f d m w"

fun run_timer_cb :: "timer_cb \<Rightarrow> world \<Rightarrow> world" where
  "run_timer_cb (RingingCb d) w = ringing_cb d w"
| "run_timer_cb (ConnectedCb d) w = connected_cb d w"
| "run_timer_cb (TickCb d) w = timer_tick d w"

text \<open>
  The request at position \<open>i\<close> completes. With a response, the callback runs on its
  \<open>message\<close>. Without one (\<open>None\<close>: the transport failed or the server raised), the
  host runs the \<open>error\<close> and \<open>always\<close> handlers of the request, of which the source
  passes none, and never the callback.
\<close>

definition respond :: "nat \<Rightarrow> jsval option \<Rightarrow> world \<Rightarrow> world" where
  "respond i resp w =
     (if i < length (requests w) then
        (let rq = requests w ! i;
             w' = w\<lparr>requests := take i (requests w) @ drop (Suc i) (requests w)\<rparr>
         in case resp of None \<Rightarrow> w' | Some m \<Rightarrow> run_callback (rq_callback rq) m w')
      else w)"

text \<open>The user answers the prompt at position \<open>i\<close>: only Yes runs a callback.\<close>

definition answer_prompt :: "nat \<Rightarrow> bool \<Rightarrow> world \<Rightarrow> world" where
  "answer_prompt i yes w =
     (if i < length (prompts w) then
        (let w' = w\<lparr>prompts := take i (prompts w) @ drop (Suc i) (prompts w)\<rparr>
         in if yes then (case prompts w ! i of RequestPermissionYes f \<Rightarrow> request_call_permission f w')
            else w')
      else w)"

text \<open>
  The timer with handle \<open>h\<close> comes due: a timeout leaves the table and runs, an interval
  runs and stays. A handle that is not in the table does nothing.
\<close>

definition fire_timer :: "nat \<Rightarrow> world \<Rightarrow> world" where
  "fire_timer h w =
     (case filter (\<lambda>t. tm_handle t = h) (timers w) of
        [] \<Rightarrow> w
      | t # _ \<Rightarrow>
          run_timer_cb (tm_callback t)
            (if tm_repeat t then w
             else w\<lparr>timers := filter (\<lambda>t. tm_handle t \<noteq> h) (timers w)\<rparr>))"

text \<open>The primary action of the call widget, End Call.\<close>

definition click_end_call :: "nat \<Rightarrow> world \<Rightarrow> world" where
  "click_end_call d w =
     (if cd_open (call_dialogs w d)
      then end_call (cd_frm (call_dialogs w d)) (cd_call_log_id (call_dialogs w d)) d w
      else w)"

text \<open>
  The user dismisses the call widget (close button, Escape): the host hides it. The dialog
  was given no hide handler, so no code of the source runs.
\<close>

definition dismiss_call_dialog :: "nat \<Rightarrow> world \<Rightarrow> world" where
  "dismiss_call_dialog d w = upd_call_dialog d (\<lambda>c. c\<lparr>cd_open := False\<rparr>) w"

text \<open>The primary action of the composer, Send.\<close>

definition click_send :: "nat \<Rightarrow> world \<Rightarrow> world" where
  "click_send d w =
     (if md_open (msg_dialogs w d) then send_message (md_frm (msg_dialogs w d)) d w else w)"

text \<open>A click on the sync button: a disabled button delivers no click to its handler.\<close>

definition click_sync :: "nat \<Rightarrow> world \<Rightarrow> world" where
  "click_sync d w =
     (if md_open (msg_dialogs w d) \<and> \<not> md_sync_disabled (msg_dialogs w d)
      then sync_click d w else w)"

text \<open>
  The fields of the composer set to a text message without going through the select: the
  text path of \<open>send_message\<close> reached directly.
\<close>

definition direct_text :: "nat \<Rightarrow> string \<Rightarrow> world \<Rightarrow> world" where
  "direct_text d txt w =
     upd_msg_dialog d (\<lambda>c. c\<lparr>md_message_type := JStr ''Text Message'', md_text_message := JStr txt\<rparr>) w"

text \<open>A form just opened: nothing in flight, no dialog, the globals as declared.\<close>

definition closed_call_dialog :: call_dialog where
  "closed_call_dialog =
     \<lparr>cd_open = False, cd_frm = \<lparr>doc_name = []\<rparr>, cd_call_log_id = JUndefined,
      cd_status_badge = [], cd_timer_shown = False, cd_timer_display = [],
      cd_call_notes = JUndefined\<rparr>"

definition closed_msg_dialog :: msg_dialog where
  "closed_msg_dialog =
     \<lparr>md_open = False, md_frm = \<lparr>doc_name = []\<rparr>, md_info_banner = False,
      md_message_type_options = [], md_message_type = JUndefined,
      md_template_name_options = [], md_template_name = JUndefined,
      md_template_name_hidden = False, md_text_message = JUndefined,
      md_text_message_hidden = False, md_sync_disabled = False, md_sync_spin = False\<rparr>"

definition init_world :: world where
  "init_world =
     \<lparr>events = [], requests = [], prompts = [], uncaught = [], beyond = False,
      timers = [], next_timer = 1,
      call_dialogs = (\<lambda>d. closed_call_dialog), next_call_dialog = 0,
      msg_dialogs = (\<lambda>d. closed_msg_dialog), next_msg_dialog = 0,
      timerInterval = None, callSeconds = 0\<rparr>"

subsection \<open>Sessions\<close>

definition lead1 :: frm where
  "lead1 = \<lparr>doc_name = ''LEAD-1''\<rparr>"

text \<open>
  A call that reached Connected: the permission check answers \<open>can_call\<close>, the backend
  accepts the call as \<open>C1\<close>, the widget opens, and the two timeouts of
  \<open>initialize_webrtc\<close> (handles 1 and 2) come due.
\<close>

definition call_connected :: world where
  "call_connected =
     fire_timer 2 (fire_timer 1
       (respond 0 (Some (JObj [(''success'', JBool True), (''call_log_id'', JStr ''C1'')]))
         (respond 0 (Some (JObj [(''can_call'', JBool True), (''can_request'', JBool False),
                                 (''message'', JStr [])]))
           (initiate_whatsapp_call lead1 init_world))))"

text \<open>
  A composer opened outside the conversation window: the window check answers
  \<open>in_window = false\<close>, and \<open>get_templates\<close> answers two templates.
\<close>

definition composer_outside_window :: world where
  "composer_outside_window =
     respond 0 (Some (JArr [JObj [(''template_name'', JStr ''A'')],
                            JObj [(''template_name'', JStr ''B'')]]))
       (respond 0 (Some (JObj [(''in_window'', JBool False)]))
         (show_message_composer lead1 init_world))"

text \<open>
  A call ended while the widget still says Connecting: End Call is pressed and answered
  before the two timeouts come due, and then they do.
\<close>

definition call_ended_early :: world where
  "call_ended_early =
     fire_timer 2 (fire_timer 1
       (respond 0 (Some (JObj [(''success'', JBool True), (''duration_seconds'', JNum 1)]))
         (click_end_call 0
           (respond 0 (Some (JObj [(''success'', JBool True), (''call_log_id'', JStr ''C1'')]))
             (respond 0 (Some (JObj [(''can_call'', JBool True), (''can_request'', JBool False),
                                     (''message'', JStr [])]))
               (initiate_whatsapp_call lead1 init_world))))))"

section \<open>Properties\<close>

subsection \<open>Auxiliary facts\<close>

lemma js_get_simps [simp]:
  "js_get JUndefined k = JUndefined"
  "js_get JNull k = JUndefined"
  "js_get (JBool b) k = JUndefined"
  "js_get (JNum n) k = JUndefined"
  "js_get (JStr s) k = JUndefined"
  "js_get (JArr xs) k = JUndefined"
  "js_get (JObj kvs) k = (case map_of kvs k of None \<Rightarrow> JUndefined | Some v \<Rightarrow> v)"
  by (simp_all add: js_get_def)

lemma truthy_get_truthy: "truthy (js_get m k) \<Longrightarrow> truthy m"
  by (cases m) simp_all

lemma template_options_Nil [simp]: "template_options (JArr []) = Ok []"
  by (simp add: template_options_def js_join_def map_result_def)

lemma safe_integer_numeral [simp]:
  "safe_integer 0" "safe_integer 1" "safe_integer 125" "safe_integer (- 125)"
  by (simp_all add: safe_integer_def)

lemma js_rem_nonneg: "0 \<le> d \<Longrightarrow> js_rem d 60 = d mod 60"
  by (cases "d = 0") (simp_all add: js_rem_def signed_modulo_int_def)

lemma respond_frappe_call:
  "respond (length (requests w)) (Some m) (frappe_call meth a fr cb w) =
     run_callback cb m (w\<lparr>events := events w @ [Call meth a fr]\<rparr>)"
  by (simp add: respond_def frappe_call_def Let_def)

lemma respond_initiate_whatsapp_call:
  "respond (length (requests w)) (Some m) (initiate_whatsapp_call f w) =
     check_permission_cb f m
       (w\<lparr>events := events w @
           [Call ''walue_whatsapp_client.api.calls.check_permission''
              [(''lead_id'', JStr (doc_name f))] None]\<rparr>)"
  by (simp add: initiate_whatsapp_call_def respond_frappe_call)

lemmas host_defs = frappe_call_def frappe_confirm_def frappe_msgprint_def frappe_show_alert_def
  reload_doc_def add_timer_def setTimeout_def setInterval_def clearInterval_def
  upd_call_dialog_def upd_msg_dialog_def respond_def answer_prompt_def fire_timer_def
  on_result_def

lemmas call_defs = initiate_whatsapp_call_def check_permission_cb_def start_call_def
  initiate_cb_def show_call_widget_def initialize_webrtc_def ringing_cb_def connected_cb_def
  startTimer_def timer_tick_def end_call_def end_cb_def click_end_call_def
  dismiss_call_dialog_def

lemmas message_defs = show_message_composer_def check_window_cb_def create_message_dialog_def
  get_templates_cb_def normalize_templates_def is_array_def template_options_def js_join_def
  js_join_elem_def map_result_def send_message_def click_send_def direct_text_def

lemma call_connected_eq:
  "call_connected =
     \<lparr>events =
        [Call ''walue_whatsapp_client.api.calls.check_permission'' [(''lead_id'', JStr ''LEAD-1'')] None,
         Call ''walue_whatsapp_client.api.calls.initiate'' [(''lead_id'', JStr ''LEAD-1'')]
           (Some ''Connecting call...'')],
      requests = [], prompts = [], uncaught = [], beyond = False,
      timers = [\<lparr>tm_handle = 3, tm_repeat = True, tm_delay = 1000, tm_callback = TickCb 0\<rparr>],
      next_timer = 4,
      call_dialogs = (\<lambda>d. closed_call_dialog)
        (0 := \<lparr>cd_open = True, cd_frm = lead1, cd_call_log_id = JStr ''C1'',
               cd_status_badge = ''Connected'', cd_timer_shown = True,
               cd_timer_display = ''00:00'', cd_call_notes = JUndefined\<rparr>),
      next_call_dialog = 1,
      msg_dialogs = (\<lambda>d. closed_msg_dialog), next_msg_dialog = 0,
      timerInterval = Some 3, callSeconds = 0\<rparr>"
  by (simp add: call_connected_def init_world_def lead1_def host_defs call_defs Let_def)

lemma composer_outside_window_eq:
  "composer_outside_window =
     \<lparr>events =
        [Call ''walue_whatsapp_client.api.messages.check_conversation_window''
           [(''lead_id'', JStr ''LEAD-1'')] None,
         Call ''walue_whatsapp_client.api.messages.get_templates'' [] None],
      requests = [], prompts = [], uncaught = [], beyond = False, timers = [], next_timer = 1,
      call_dialogs = (\<lambda>d. closed_call_dialog), next_call_dialog = 0,
      msg_dialogs = (\<lambda>d. closed_msg_dialog)
        (0 := \<lparr>md_open = True, md_frm = lead1, md_info_banner = True,
               md_message_type_options = ''Template'',
               md_message_type = JStr ''Template'',
               md_template_name_options = [CHR ''A'', CHR 0x0A, CHR ''B''],
               md_template_name = JUndefined, md_template_name_hidden = False,
               md_text_message = JUndefined, md_text_message_hidden = True,
               md_sync_disabled = False, md_sync_spin = False\<rparr>),
      next_msg_dialog = 1,
      timerInterval = None, callSeconds = 0\<rparr>"
  by (simp add: composer_outside_window_def init_world_def lead1_def host_defs message_defs Let_def)

subsection \<open>Placing a call\<close>

text \<open>
  C1. When the permission check answers a status whose \<open>can_call\<close> is set, the callback
  of \<open>initiate_whatsapp_call\<close> runs \<open>start_call\<close> for the same lead: the only thing
  that follows the check is the \<open>initiate\<close> request with that lead's id. No confirmation
  prompt is opened and no message or alert is shown before it.
\<close>

theorem can_call_starts_call:
  assumes "truthy (js_get st ''can_call'')"
  shows "respond (length (requests w)) (Some st) (initiate_whatsapp_call f w) =
           start_call f
             (w\<lparr>events := events w @
                 [Call ''walue_whatsapp_client.api.calls.check_permission''
                    [(''lead_id'', JStr (doc_name f))] None]\<rparr>)
    \<and> events (respond (length (requests w)) (Some st) (initiate_whatsapp_call f w)) =
        events w @
          [Call ''walue_whatsapp_client.api.calls.check_permission''
             [(''lead_id'', JStr (doc_name f))] None,
           Call ''walue_whatsapp_client.api.calls.initiate'' [(''lead_id'', JStr (doc_name f))]
             (Some ''Connecting call...'')]
    \<and> prompts (respond (length (requests w)) (Some st) (initiate_whatsapp_call f w)) = prompts w"
  using assms truthy_get_truthy[OF assms]
  by (simp add: respond_initiate_whatsapp_call check_permission_cb_def start_call_def frappe_call_def)

text \<open>The same at a concrete status, from a form just opened.\<close>

theorem can_call_starts_call_witness:
  "truthy (js_get (JObj [(''can_call'', JBool True), (''message'', JStr ''ok'')]) ''can_call'')
   \<and> events (respond 0 (Some (JObj [(''can_call'', JBool True), (''message'', JStr ''ok'')]))
               (initiate_whatsapp_call lead1 init_world)) =
       [Call ''walue_whatsapp_client.api.calls.check_permission'' [(''lead_id'', JStr ''LEAD-1'')] None,
        Call ''walue_whatsapp_client.api.calls.initiate'' [(''lead_id'', JStr ''LEAD-1'')]
          (Some ''Connecting call...'')]
   \<and> prompts (respond 0 (Some (JObj [(''can_call'', JBool True), (''message'', JStr ''ok'')]))
               (initiate_whatsapp_call lead1 init_world)) = []"
proof -
  have a: "truthy (js_get (JObj [(''can_call'', JBool True), (''message'', JStr ''ok'')]) ''can_call'')"
    by simp
  have b: "requests init_world = []" "events init_world = []" "prompts init_world = []"
    by (simp_all add: init_world_def)
  show ?thesis
    using can_call_starts_call [OF a, of init_world lead1] a b
    by (simp add: lead1_def start_call_def frappe_call_def)
qed

text \<open>
  C4. When the status has \<open>can_call\<close> unset, \<open>can_request\<close> set and a string as its
  \<open>message\<close>, the callback only opens a confirmation prompt showing that message: no
  request is in flight after it. Declining the prompt leaves nothing behind, so
  \<open>request_permission\<close> is never called; accepting it is what issues the
  \<open>request_permission\<close> call.
\<close>

theorem permission_request_needs_confirmation:
  assumes "\<not> truthy (js_get st ''can_call'')" and "truthy (js_get st ''can_request'')"
    and "js_get st ''message'' = JStr msg"
  shows "respond (length (requests w)) (Some st) (initiate_whatsapp_call f w) =
           w\<lparr>events := events w @
               [Call ''walue_whatsapp_client.api.calls.check_permission''
                  [(''lead_id'', JStr (doc_name f))] None,
                Confirm (msg @ ''<br><br>Would you like to send a permission request?'')],
             prompts := prompts w @ [RequestPermissionYes f]\<rparr>
    \<and> answer_prompt (length (prompts w)) False
          (respond (length (requests w)) (Some st) (initiate_whatsapp_call f w)) =
           w\<lparr>events := events w @
               [Call ''walue_whatsapp_client.api.calls.check_permission''
                  [(''lead_id'', JStr (doc_name f))] None,
                Confirm (msg @ ''<br><br>Would you like to send a permission request?'')]\<rparr>
    \<and> answer_prompt (length (prompts w)) True
          (respond (length (requests w)) (Some st) (initiate_whatsapp_call f w)) =
           w\<lparr>events := events w @
               [Call ''walue_whatsapp_client.api.calls.check_permission''
                  [(''lead_id'', JStr (doc_name f))] None,
                Confirm (msg @ ''<br><br>Would you like to send a permission request?''),
                Call ''walue_whatsapp_client.api.calls.request_permission''
                  [(''lead_id'', JStr (doc_name f))] (Some ''Sending permission request...'')],
             requests := requests w @
               [\<lparr>rq_method = ''walue_whatsapp_client.api.calls.request_permission'',
                 rq_args = [(''lead_id'', JStr (doc_name f))],
                 rq_callback = RequestPermissionCb f\<rparr>]\<rparr>"
  using assms truthy_get_truthy[OF assms(2)]
  by (simp add: respond_initiate_whatsapp_call check_permission_cb_def on_result_def
      frappe_confirm_def answer_prompt_def request_call_permission_def frappe_call_def)

text \<open>The same at a concrete status, from a form just opened.\<close>

theorem permission_request_needs_confirmation_witness:
  "\<not> truthy (js_get (JObj [(''can_call'', JBool False), (''can_request'', JBool True),
                             (''message'', JStr ''No permission yet'')]) ''can_call'')
   \<and> truthy (js_get (JObj [(''can_call'', JBool False), (''can_request'', JBool True),
                            (''message'', JStr ''No permission yet'')]) ''can_request'')
   \<and> js_get (JObj [(''can_call'', JBool False), (''can_request'', JBool True),
                    (''message'', JStr ''No permission yet'')]) ''message'' = JStr ''No permission yet''
   \<and> events (respond 0 (Some (JObj [(''can_call'', JBool False), (''can_request'', JBool True),
                                     (''message'', JStr ''No permission yet'')]))
               (initiate_whatsapp_call lead1 init_world)) =
       [Call ''walue_whatsapp_client.api.calls.check_permission'' [(''lead_id'', JStr ''LEAD-1'')] None,
        Confirm ''No permission yet<br><br>Would you like to send a permission request?'']
   \<and> requests (respond 0 (Some (JObj [(''can_call'', JBool False), (''can_request'', JBool True),
                                       (''message'', JStr ''No permission yet'')]))
                 (initiate_whatsapp_call lead1 init_world)) = []
   \<and> requests (answer_prompt 0 False
                 (respond 0 (Some (JObj [(''can_call'', JBool False), (''can_request'', JBool True),
                                         (''message'', JStr ''No permission yet'')]))
                   (initiate_whatsapp_call lead1 init_world))) = []
   \<and> map rq_method (requests (answer_prompt 0 True
                 (respond 0 (Some (JObj [(''can_call'', JBool False), (''can_request'', JBool True),
                                         (''message'', JStr ''No permission yet'')]))
                   (initiate_whatsapp_call lead1 init_world)))) =
       [''walue_whatsapp_client.api.calls.request_permission'']"
proof -
  let ?st = "JObj [(''can_call'', JBool False), (''can_request'', JBool True),
                   (''message'', JStr ''No permission yet'')]"
  have a: "\<not> truthy (js_get ?st ''can_call'')" by simp
  have b: "truthy (js_get ?st ''can_request'')" by simp
  have m: "js_get ?st ''message'' = JStr ''No permission yet''" by simp
  have c: "requests init_world = []" "events init_world = []" "prompts init_world = []"
    by (simp_all add: init_world_def)
  show ?thesis
    using permission_request_needs_confirmation [OF a b m, of init_world lead1] a b m c
    by (simp add: lead1_def answer_prompt_def request_call_permission_def frappe_call_def)
qed

text \<open>
  When the message is an object that cannot be turned into a string, the concatenation
  raises before \<open>frappe.confirm\<close> is reached: no prompt opens and no request is made.
\<close>

lemma permission_message_raises_no_prompt:
  assumes "\<not> truthy (js_get st ''can_call'')" and "truthy (js_get st ''can_request'')"
    and "js_to_string (js_get st ''message'') = Throws e"
  shows "respond (length (requests w)) (Some st) (initiate_whatsapp_call f w) =
           w\<lparr>events := events w @
               [Call ''walue_whatsapp_client.api.calls.check_permission''
                  [(''lead_id'', JStr (doc_name f))] None],
             uncaught := uncaught w @ [e]\<rparr>"
  using assms truthy_get_truthy[OF assms(2)]
  by (simp add: respond_initiate_whatsapp_call check_permission_cb_def on_result_def)

text \<open>
  C5. When the status has both flags unset, the callback shows the status message and does
  nothing else: the state differs from the one before only by the permission check itself
  and the message, and no request is in flight.
\<close>

theorem blocked_call_only_message:
  assumes "truthy st" and "\<not> truthy (js_get st ''can_call'')"
    and "\<not> truthy (js_get st ''can_request'')"
  shows "respond (length (requests w)) (Some st) (initiate_whatsapp_call f w) =
           w\<lparr>events := events w @
               [Call ''walue_whatsapp_client.api.calls.check_permission''
                  [(''lead_id'', JStr (doc_name f))] None,
                Msgprint (Some ''Cannot Call'') (js_get st ''message'') (Some ''orange'')]\<rparr>"
  using assms
  by (simp add: respond_initiate_whatsapp_call check_permission_cb_def frappe_msgprint_def)

text \<open>The same at a concrete status, from a form just opened.\<close>

theorem blocked_call_only_message_witness:
  "truthy (JObj [(''can_call'', JBool False), (''can_request'', JBool False),
                 (''message'', JStr ''Blocked'')])
   \<and> \<not> truthy (js_get (JObj [(''can_call'', JBool False), (''can_request'', JBool False),
                               (''message'', JStr ''Blocked'')]) ''can_call'')
   \<and> \<not> truthy (js_get (JObj [(''can_call'', JBool False), (''can_request'', JBool False),
                               (''message'', JStr ''Blocked'')]) ''can_request'')
   \<and> respond 0 (Some (JObj [(''can_call'', JBool False), (''can_request'', JBool False),
                             (''message'', JStr ''Blocked'')]))
        (initiate_whatsapp_call lead1 init_world) =
       init_world\<lparr>events :=
         [Call ''walue_whatsapp_client.api.calls.check_permission'' [(''lead_id'', JStr ''LEAD-1'')] None,
          Msgprint (Some ''Cannot Call'') (JStr ''Blocked'') (Some ''orange'')]\<rparr>"
proof -
  let ?st = "JObj [(''can_call'', JBool False), (''can_request'', JBool False),
                   (''message'', JStr ''Blocked'')]"
  have a: "truthy ?st" by simp
  have b: "\<not> truthy (js_get ?st ''can_call'')" by simp
  have c: "\<not> truthy (js_get ?st ''can_request'')" by simp
  have d: "requests init_world = []" "events init_world = []"
    by (simp_all add: init_world_def)
  show ?thesis
    using blocked_call_only_message [OF a b c, of init_world lead1] a b c d
    by (simp add: lead1_def)
qed

subsection \<open>Ending a call\<close>

text \<open>
  C6, as stated, fails for a negative duration: in the connected call, End Call answered
  with \<open>duration_seconds = -125\<close> reports \<open>-3m -5s\<close>. The seconds are \<open>-125 % 60 = -5\<close>,
  not \<open>-125 mod 60 = 55\<close>.
\<close>

theorem end_call_negative_duration_counterexample:
  "events (respond 0 (Some (JObj [(''success'', JBool True), (''duration_seconds'', JNum (- 125))]))
            (click_end_call 0 call_connected)) =
     events call_connected @
       [Call ''walue_whatsapp_client.api.calls.end''
          [(''call_log_id'', JStr ''C1''), (''notes'', JUndefined)] None,
        Alert (JStr ''Call ended. Duration: -3m -5s'') ''green'',
        ReloadDoc]
   \<and> string_of_int ((- 125) mod 60) = ''55''"
proof -
  have s1: "string_of_int (- 3) = ''-3''" by code_simp
  have s2: "string_of_int (- 5) = ''-5''" by code_simp
  have s3: "string_of_int 55 = ''55''" by code_simp
  show ?thesis
    by (simp add: call_connected_eq host_defs call_defs Let_def js_floor_div_def js_rem_def
        signed_modulo_int_def num_string_def s1 s2 s3)
qed

text \<open>
  C6, amended. \<open>end_call\<close> stops the interval and sends \<open>end\<close> with the call's id and
  the notes. When the response has \<open>success\<close> set and \<open>duration_seconds\<close> is an integer
  \<open>d\<close> with \<open>0 \<le> d \<le> 2^53 - 1\<close>, the widget is hidden, the alert reports
  \<open>floor (d / 60)\<close> minutes and \<open>d mod 60\<close> seconds, and the form is reloaded.
\<close>

theorem end_call_reports_duration:
  assumes "truthy (js_get m ''success'')" and "js_get m ''duration_seconds'' = JNum d"
    and "0 \<le> d" and "d \<le> 9007199254740991"
  shows "events (respond (length (requests w)) (Some m) (end_call f c dlg w)) =
           events w @
             [Call ''walue_whatsapp_client.api.calls.end''
                [(''call_log_id'', c), (''notes'', cd_call_notes (call_dialogs w dlg))] None,
              Alert (JStr (''Call ended. Duration: '' @ string_of_int (d div 60) @ ''m '' @
                           string_of_int (d mod 60) @ ''s'')) ''green'',
              ReloadDoc]
    \<and> \<not> cd_open (call_dialogs (respond (length (requests w)) (Some m) (end_call f c dlg w)) dlg)
    \<and> timers (respond (length (requests w)) (Some m) (end_call f c dlg w)) =
        timers (clearInterval (timerInterval w) w)
    \<and> requests (respond (length (requests w)) (Some m) (end_call f c dlg w)) = requests w
    \<and> uncaught (respond (length (requests w)) (Some m) (end_call f c dlg w)) = uncaught w
    \<and> beyond (respond (length (requests w)) (Some m) (end_call f c dlg w)) = beyond w"
proof -
  have safe: "safe_integer d" using assms(3,4) by (simp add: safe_integer_def)
  have r: "js_rem d 60 = d mod 60" using assms(3) by (rule js_rem_nonneg)
  have q: "requests (clearInterval (timerInterval w) w) = requests w"
    by (simp add: clearInterval_def split: option.split)
  have e: "end_call f c dlg w =
             frappe_call ''walue_whatsapp_client.api.calls.end''
               [(''call_log_id'', c), (''notes'', cd_call_notes (call_dialogs w dlg))] None
               (EndCb f dlg) (clearInterval (timerInterval w) w)"
    by (simp add: end_call_def Let_def clearInterval_def split: option.split)
  have ev: "events (clearInterval (timerInterval w) w) = events w"
    "uncaught (clearInterval (timerInterval w) w) = uncaught w"
    "beyond (clearInterval (timerInterval w) w) = beyond w"
    by (simp_all add: clearInterval_def split: option.split)
  have "respond (length (requests w)) (Some m) (end_call f c dlg w) =
          end_cb f dlg m
            ((clearInterval (timerInterval w) w)
               \<lparr>events := events w @
                  [Call ''walue_whatsapp_client.api.calls.end''
                     [(''call_log_id'', c), (''notes'', cd_call_notes (call_dialogs w dlg))] None]\<rparr>)"
    using respond_frappe_call [of "clearInterval (timerInterval w) w" m] by (simp add: e q ev)
  then show ?thesis
    using assms(1,2) truthy_get_truthy[OF assms(1)] safe r q ev
    by (simp add: end_cb_def Let_def on_result_def reload_doc_def frappe_show_alert_def
        upd_call_dialog_def num_string_def js_floor_div_def)
qed

text \<open>
  In the connected call, End Call answered with a duration of 125 seconds reports
  \<open>2m 5s\<close> and leaves no timer.
\<close>

theorem end_call_reports_duration_witness:
  "truthy (js_get (JObj [(''success'', JBool True), (''duration_seconds'', JNum 125)]) ''success'')
   \<and> js_get (JObj [(''success'', JBool True), (''duration_seconds'', JNum 125)])
        ''duration_seconds'' = JNum 125
   \<and> (0::int) \<le> 125 \<and> (125::int) \<le> 9007199254740991
   \<and> events (respond 0 (Some (JObj [(''success'', JBool True), (''duration_seconds'', JNum 125)]))
               (end_call lead1 (JStr ''C1'') 0 call_connected)) =
        events call_connected @
          [Call ''walue_whatsapp_client.api.calls.end''
             [(''call_log_id'', JStr ''C1''), (''notes'', JUndefined)] None,
           Alert (JStr ''Call ended. Duration: 2m 5s'') ''green'',
           ReloadDoc]
   \<and> timers (respond 0 (Some (JObj [(''success'', JBool True), (''duration_seconds'', JNum 125)]))
               (end_call lead1 (JStr ''C1'') 0 call_connected)) = []"
proof -
  have a: "truthy (js_get (JObj [(''success'', JBool True), (''duration_seconds'', JNum 125)]) ''success'')"
    by simp
  have b: "js_get (JObj [(''success'', JBool True), (''duration_seconds'', JNum 125)])
             ''duration_seconds'' = JNum 125"
    by simp
  have c: "(0::int) \<le> 125" by simp
  have d: "(125::int) \<le> 9007199254740991" by simp
  have s1: "string_of_int (125 div 60) = ''2''" by code_simp
  have s2: "string_of_int (125 mod 60) = ''5''" by code_simp
  have e: "requests call_connected = []"
    "cd_call_notes (call_dialogs call_connected 0) = JUndefined"
    "timers (clearInterval (timerInterval call_connected) call_connected) = []"
    by (simp_all add: call_connected_eq clearInterval_def)
  show ?thesis
    using end_call_reports_duration [OF a b c d, of call_connected lead1 "JStr ''C1''" 0]
      a b e s1 s2
    by simp
qed

text \<open>
  C8. A failed \<open>end\<close> is not reported. With \<open>success\<close> unset, or with no message at
  all, the callback hides the widget and shows nothing; when no response arrives, the
  callback does not run and nothing is shown either. The callback of \<open>initiate\<close>, on the
  same kind of response, shows the backend's error.
\<close>

theorem end_call_failure_not_reported:
  "events (end_cb f d (JObj [(''success'', JBool False), (''error'', JStr ''Call not found'')]) w) = events w
   \<and> \<not> cd_open (call_dialogs (end_cb f d (JObj [(''success'', JBool False), (''error'', JStr ''Call not found'')]) w) d)
   \<and> events (end_cb f d JUndefined w) = events w
   \<and> events (respond (length (requests w)) None (end_call f c d w)) =
       events w @ [Call ''walue_whatsapp_client.api.calls.end''
                     [(''call_log_id'', c), (''notes'', cd_call_notes (call_dialogs w d))] None]
   \<and> events (initiate_cb f (JObj [(''success'', JBool False), (''error'', JStr ''Call not found'')]) w) =
       events w @ [Msgprint (Some ''Call Failed'') (JStr ''Call not found'') (Some ''red'')]"
  by (simp add: end_cb_def upd_call_dialog_def initiate_cb_def frappe_msgprint_def
      end_call_def clearInterval_def respond_def frappe_call_def Let_def split: option.split)

text \<open>
  End Call cancels only the interval that \<open>timerInterval\<close> names at that moment. Pressed
  before Connected, it cancels nothing; the pending timeout then starts the interval on the
  hidden widget, and nothing is left to cancel it.
\<close>

lemma end_before_connected_starts_timer:
  "\<not> cd_open (call_dialogs call_ended_early 0)
   \<and> timers call_ended_early =
        [\<lparr>tm_handle = 3, tm_repeat = True, tm_delay = 1000, tm_callback = TickCb 0\<rparr>]
   \<and> requests call_ended_early = []"
proof -
  have s1: "string_of_int 0 = ''0''" by code_simp
  have s2: "string_of_int 1 = ''1''" by code_simp
  show ?thesis
    by (simp add: call_ended_early_def init_world_def lead1_def host_defs call_defs Let_def
        js_floor_div_def js_rem_def signed_modulo_int_def num_string_def s1 s2)
qed

text \<open>
  C9. The interval started on reaching Connected outlives a dismissed widget. In the
  connected call, hiding the widget without End Call leaves the interval (handle 3) in the
  timer table, and its next tick still counts and rewrites the display. End Call, in the
  same state, empties the table.
\<close>

theorem dismissed_widget_timer_keeps_ticking:
  "\<not> cd_open (call_dialogs (dismiss_call_dialog 0 call_connected) 0)
   \<and> map tm_handle (timers (dismiss_call_dialog 0 call_connected)) = [3]
   \<and> cd_timer_display (call_dialogs (fire_timer 3 (dismiss_call_dialog 0 call_connected)) 0) = ''00:01''
   \<and> callSeconds (fire_timer 3 (dismiss_call_dialog 0 call_connected)) = 1
   \<and> timers (click_end_call 0 call_connected) = []"
proof -
  have s1: "string_of_int 0 = ''0''" by code_simp
  have s2: "string_of_int 1 = ''1''" by code_simp
  show ?thesis
    by (simp add: call_connected_eq host_defs call_defs Let_def js_floor_div_def js_rem_def
        signed_modulo_int_def pad_start_def s1 s2)
qed

subsection \<open>Composing a message\<close>

text \<open>
  C2, as stated, fails: in the composer opened outside the conversation window, which
  offers only the Template type, a text message set directly into the fields and sent goes
  to the backend as a \<open>send_text\<close> call.
\<close>

theorem text_send_outside_window_counterexample:
  "md_message_type_options (msg_dialogs composer_outside_window 0) = ''Template''
   \<and> md_info_banner (msg_dialogs composer_outside_window 0)
   \<and> events (click_send 0 (direct_text 0 ''hello'' composer_outside_window)) =
       events composer_outside_window @
         [Call ''walue_whatsapp_client.api.messages.send_text''
            [(''lead_id'', JStr ''LEAD-1''), (''text'', JStr ''hello'')]
            (Some ''Sending message...'')]"
  by (simp add: composer_outside_window_eq lead1_def host_defs message_defs Let_def)

text \<open>
  C2, amended. Outside the conversation window the composer offers the Template type only,
  and selects it. \<open>send_message\<close> does not look at the window: once the message type is
  anything but Template, a non-empty text is sent with \<open>send_text\<close>, and only an empty
  text is refused locally, with a message and no request.
\<close>

theorem send_message_text_path:
  assumes "\<not> truthy (js_get ws ''in_window'')"
    and "template_options (normalize_templates m) = Ok opts"
    and "md_message_type (msg_dialogs w d) \<noteq> JStr ''Template''"
  shows "md_message_type_options (msg_dialogs (get_templates_cb f ws m w0) (next_msg_dialog w0)) = ''Template''
    \<and> md_message_type (msg_dialogs (get_templates_cb f ws m w0) (next_msg_dialog w0)) = JStr ''Template''
    \<and> send_message f d w =
        (if truthy (md_text_message (msg_dialogs w d)) then
           frappe_call ''walue_whatsapp_client.api.messages.send_text''
             [(''lead_id'', JStr (doc_name f)), (''text'', md_text_message (msg_dialogs w d))]
             (Some ''Sending message...'') (SendCb f d) w
         else frappe_msgprint None (JStr ''Please enter a message'') None w)"
  using assms by (simp add: get_templates_cb_def send_message_def on_result_def Let_def)

text \<open>The same at the composer opened outside the window, with the text set directly.\<close>

theorem send_message_text_path_witness:
  "\<not> truthy (js_get (JObj [(''in_window'', JBool False)]) ''in_window'')
   \<and> template_options (normalize_templates (JArr [])) = Ok []
   \<and> md_message_type (msg_dialogs (direct_text 0 ''hello'' composer_outside_window) 0) \<noteq> JStr ''Template''
   \<and> md_message_type_options
        (msg_dialogs (get_templates_cb lead1 (JObj [(''in_window'', JBool False)]) (JArr []) init_world) 0) = ''Template''
   \<and> requests (send_message lead1 0 (direct_text 0 ''hello'' composer_outside_window)) =
        [\<lparr>rq_method = ''walue_whatsapp_client.api.messages.send_text'',
          rq_args = [(''lead_id'', JStr ''LEAD-1''), (''text'', JStr ''hello'')],
          rq_callback = SendCb lead1 0\<rparr>]"
proof -
  have a: "\<not> truthy (js_get (JObj [(''in_window'', JBool False)]) ''in_window'')" by simp
  have b: "template_options (normalize_templates (JArr [])) = Ok []"
    by (simp add: normalize_templates_def is_array_def)
  have c: "md_message_type (msg_dialogs (direct_text 0 ''hello'' composer_outside_window) 0) \<noteq> JStr ''Template''"
    by (simp add: direct_text_def upd_msg_dialog_def)
  have d: "next_msg_dialog init_world = 0" by (simp add: init_world_def)
  have e: "md_text_message (msg_dialogs (direct_text 0 ''hello'' composer_outside_window) 0) = JStr ''hello''"
    by (simp add: direct_text_def upd_msg_dialog_def)
  have g: "requests (direct_text 0 ''hello'' composer_outside_window) = []"
    by (simp add: direct_text_def upd_msg_dialog_def composer_outside_window_eq)
  show ?thesis
    using send_message_text_path [OF a b c, of lead1 init_world] a b c d e g
    by (simp add: frappe_call_def lead1_def)
qed

text \<open>
  C3, as stated, fails: a wrapped response whose \<open>templates\<close> is not a list is not
  mapped to the empty list; its \<open>templates\<close> value is taken as it is.
\<close>

theorem normalize_templates_non_list_counterexample:
  "normalize_templates (JObj [(''success'', JBool True), (''templates'', JStr ''A'')]) = JStr ''A''
   \<and> normalize_templates (JObj [(''success'', JBool True), (''templates'', JStr ''A'')]) \<noteq> JArr []"
  by (simp add: normalize_templates_def is_array_def)

text \<open>
  C3, amended. A bare list and a wrapped object with \<open>success = true\<close> and the same list
  under \<open>templates\<close> give the same template list. \<open>undefined\<close>, \<open>null\<close>, a boolean, a
  number and a string give the empty list. Any other object gives the empty list when its
  \<open>success\<close> or its \<open>templates\<close> is missing or falsy, and its \<open>templates\<close> value
  unchanged otherwise.
\<close>

theorem normalize_templates_shapes:
  "normalize_templates (JArr xs) = JArr xs
   \<and> normalize_templates (JObj [(''success'', JBool True), (''templates'', JArr xs)]) = JArr xs
   \<and> normalize_templates JUndefined = JArr []
   \<and> normalize_templates JNull = JArr []
   \<and> normalize_templates (JBool b) = JArr []
   \<and> normalize_templates (JNum n) = JArr []
   \<and> normalize_templates (JStr s) = JArr []
   \<and> normalize_templates (JObj kvs) =
       (if truthy (js_get (JObj kvs) ''success'') \<and> truthy (js_get (JObj kvs) ''templates'')
        then js_get (JObj kvs) ''templates'' else JArr [])"
  by (simp add: normalize_templates_def is_array_def)

text \<open>
  C7. The sync button is not re-enabled when the call gets no response. The click handler
  disables the button, and a click on the disabled button does nothing. The callback
  re-enables it whatever the response says. When no response arrives the callback does not
  run: the request is gone, and the button stays disabled with its icon spinning.
\<close>

theorem sync_button_stays_disabled_without_response:
  "md_sync_disabled (msg_dialogs (sync_click d w) d)
   \<and> click_sync d (sync_click d w) = sync_click d w
   \<and> \<not> md_sync_disabled (msg_dialogs (respond (length (requests w)) (Some m) (sync_click d w)) d)
   \<and> md_sync_disabled (msg_dialogs (respond (length (requests w)) None (sync_click d w)) d)
   \<and> md_sync_spin (msg_dialogs (respond (length (requests w)) None (sync_click d w)) d)
   \<and> requests (respond (length (requests w)) None (sync_click d w)) = requests w"
  by (simp add: sync_click_def click_sync_def respond_def frappe_call_def upd_msg_dialog_def
      sync_templates_cb_def frappe_show_alert_def on_result_def Let_def split: result.split)


end
